theory Spec2Isabelle
  imports Main
begin

section \<open>Python values, exceptions and the collaborator\<close>

text \<open>
  The repository is one Python script, \<^verbatim>\<open>Packages/Python/usage.py\<close>. It imports three
  callables from the external package \<^verbatim>\<open>novacore\<close>, calls each inside a
  \<^verbatim>\<open>try: ... except Exception as e:\<close> block, and then calls each again with the
  argument \<^verbatim>\<open>path\<close>. The script is embedded statement by statement: a statement is a
  function from the world before it to the control flow and the world after it.
\<close>

text \<open>The argument of \<^verbatim>\<open>SystemExit\<close>: \<^verbatim>\<open>None\<close>, an integer, or another object.\<close>

datatype exit_arg = ExitNone | ExitInt int | ExitObj string

text \<open>
  Exception objects, by their place in the class hierarchy, which is all that
  \<^verbatim>\<open>except Exception\<close> and the interpreter's top level look at.
  \<open>Exc cls txt\<close> is an instance of the class \<open>cls\<close> derived from \<^verbatim>\<open>Exception\<close>, with
  \<^verbatim>\<open>str(e) = txt\<close>; \<open>BaseExc cls txt\<close> is an instance of a class derived from
  \<^verbatim>\<open>BaseException\<close> but neither from \<^verbatim>\<open>Exception\<close>, \<^verbatim>\<open>SystemExit\<close> nor
  \<^verbatim>\<open>KeyboardInterrupt\<close> (\<^verbatim>\<open>GeneratorExit\<close>, \<^verbatim>\<open>asyncio.CancelledError\<close>, a user's own class).

  The third field of \<open>Exc\<close> is the reflected addition \<^verbatim>\<open>__radd__\<close> of the class, if the
  class defines one: the handlers of the script evaluate \<^verbatim>\<open>str + e\<close>, for which the
  interpreter calls \<^verbatim>\<open>e.__radd__(str)\<close> first. Given the left operand, the method
  returns \<^verbatim>\<open>NotImplemented\<close>, or returns an object (given here by its \<^verbatim>\<open>str()\<close> text,
  which is all that \<^verbatim>\<open>print\<close> uses of it), or raises. No built-in exception class
  defines \<^verbatim>\<open>__radd__\<close>.
\<close>

datatype pyexc =
    Exc string string "(string \<Rightarrow> radd_result) option"
  | SystemExit exit_arg
  | KeyboardInterrupt
  | BaseExc string string
and radd_result = NotImplemented | Gives string | Throws pyexc

text \<open>The three names imported from \<^verbatim>\<open>novacore\<close>.\<close>

datatype entry = Login | LoginSilent | LoginNoexit

datatype pyval =
    PyNone
  | PyBool bool
  | PyInt int
  | PyStr string
  | PyExcV pyexc
  | PyFunc entry
  | PyModule string
  | PyBuiltinFn string
  | PyClass string

fun is_Exception :: "pyexc \<Rightarrow> bool" where
  "is_Exception (Exc cls txt rd) = True"
| "is_Exception (SystemExit a) = False"
| "is_Exception KeyboardInterrupt = False"
| "is_Exception (BaseExc cls txt) = False"

fun class_name :: "pyexc \<Rightarrow> string" where
  "class_name (Exc cls txt rd) = cls"
| "class_name (SystemExit a) = ''SystemExit''"
| "class_name KeyboardInterrupt = ''KeyboardInterrupt''"
| "class_name (BaseExc cls txt) = cls"

text \<open>\<^verbatim>\<open>type(v).__name__\<close>, which the interpreter quotes in its \<^verbatim>\<open>TypeError\<close> messages.\<close>

fun type_name :: "pyval \<Rightarrow> string" where
  "type_name PyNone = ''NoneType''"
| "type_name (PyBool b) = ''bool''"
| "type_name (PyInt i) = ''int''"
| "type_name (PyStr s) = ''str''"
| "type_name (PyExcV x) = class_name x"
| "type_name (PyFunc f) = ''function''"
| "type_name (PyModule m) = ''module''"
| "type_name (PyBuiltinFn n) = ''builtin_function_or_method''"
| "type_name (PyClass n) = ''type''"

text \<open>The two exceptions the interpreter itself raises while running this script.\<close>

definition NameError :: "string \<Rightarrow> pyexc" where
  "NameError x =
     Exc ''NameError'' (''name '' @ [CHR 0x27] @ x @ [CHR 0x27] @ '' is not defined'') None"

definition TypeError_concat :: "pyval \<Rightarrow> pyexc" where
  "TypeError_concat v =
     Exc ''TypeError''
       (''can only concatenate str (not '' @ [CHR 0x22] @ type_name v @ [CHR 0x22] @ '') to str'')
       None"

definition TypeError_not_callable :: "pyval \<Rightarrow> pyexc" where
  "TypeError_not_callable v =
     Exc ''TypeError'' ([CHR 0x27] @ type_name v @ [CHR 0x27] @ '' object is not callable'') None"

text \<open>
  \<^verbatim>\<open>a + v\<close> for a \<^verbatim>\<open>str\<close> \<open>a\<close>. Two \<^verbatim>\<open>str\<close> are concatenated. For any other right
  operand the interpreter first calls the operand's \<^verbatim>\<open>__radd__\<close>, if its class defines
  one, and takes what it returns or raises; when there is none, or when it returns
  \<^verbatim>\<open>NotImplemented\<close>, string concatenation is tried and raises \<^verbatim>\<open>TypeError\<close>. Of the
  values here only exception objects can define \<^verbatim>\<open>__radd__\<close>. The result \<open>Inr t\<close> is
  the resulting object, given by its \<^verbatim>\<open>str()\<close> text (a \<^verbatim>\<open>str\<close> is its own text).
\<close>

fun str_add :: "string \<Rightarrow> pyval \<Rightarrow> pyexc + string" where
  "str_add a (PyStr b) = Inr (a @ b)"
| "str_add a (PyExcV (Exc cls txt (Some radd))) =
     (case radd a of
        NotImplemented \<Rightarrow> Inl (TypeError_concat (PyExcV (Exc cls txt (Some radd))))
      | Gives t \<Rightarrow> Inr t
      | Throws x \<Rightarrow> Inl x)"
| "str_add a v = Inl (TypeError_concat v)"

text \<open>
  The collaborator is outside the repository, so it is a parameter: a callable with a
  private state of its own. A call writes some text to standard output (possibly none)
  and either returns a value or raises. It does not touch the script's module namespace.
\<close>

datatype call_result = Returned pyval | Raised pyexc

record reply =
  out :: string
  res :: call_result

type_synonym 's collab = "entry \<Rightarrow> pyval list \<Rightarrow> 's \<Rightarrow> reply \<times> 's"

section \<open>The world and control flow\<close>

text \<open>
  \<open>stdout\<close> is the text written to standard output so far, \<open>globals\<close> the namespace of
  the module, \<open>cstate\<close> the collaborator's state. \<open>calls\<close> is a log of the collaborator
  calls made, with their arguments and replies, kept to state the properties below; the
  script does not read it. Standard error is not modelled.
\<close>

record 's world =
  stdout :: string
  globals :: "string \<rightharpoonup> pyval"
  cstate :: 's
  calls :: "(entry \<times> pyval list \<times> reply) list"

datatype 'w flow = Normal 'w | Raise pyexc 'w

type_synonym 's stmt = "'s world \<Rightarrow> 's world flow"

fun world_of :: "'w flow \<Rightarrow> 'w" where
  "world_of (Normal w) = w"
| "world_of (Raise x w) = w"

text \<open>Statement sequencing: a raised exception skips the statements that follow.\<close>

definition seq :: "'s stmt \<Rightarrow> 's stmt \<Rightarrow> 's stmt" where
  "seq a b w = (case a w of Normal w' \<Rightarrow> b w' | Raise x w' \<Rightarrow> Raise x w')"

text \<open>
  Names of the \<^verbatim>\<open>builtins\<close> module: the documented built-in functions and classes, and
  the exception classes this development mentions.
\<close>

definition builtin_functions :: "string list" where
  "builtin_functions =
     [''abs'', ''aiter'', ''all'', ''anext'', ''any'', ''ascii'', ''bin'', ''breakpoint'',
      ''callable'', ''chr'', ''compile'', ''delattr'', ''dir'', ''divmod'', ''eval'', ''exec'',
      ''format'', ''getattr'', ''globals'', ''hasattr'', ''hash'', ''hex'', ''id'', ''input'',
      ''isinstance'', ''issubclass'', ''iter'', ''len'', ''locals'', ''max'', ''min'', ''next'',
      ''oct'', ''open'', ''ord'', ''pow'', ''print'', ''repr'', ''round'', ''setattr'',
      ''sorted'', ''sum'', ''vars'', ''__import__'']"

definition builtin_classes :: "string list" where
  "builtin_classes =
     [''bool'', ''bytearray'', ''bytes'', ''classmethod'', ''complex'', ''dict'', ''enumerate'',
      ''filter'', ''float'', ''frozenset'', ''int'', ''list'', ''map'', ''memoryview'',
      ''object'', ''property'', ''range'', ''reversed'', ''set'', ''slice'', ''staticmethod'',
      ''str'', ''super'', ''tuple'', ''type'', ''zip'',
      ''BaseException'', ''Exception'', ''TypeError'', ''NameError'', ''SystemExit'',
      ''KeyboardInterrupt'']"

text \<open>Evaluating a name: module globals first, then builtins, else \<^verbatim>\<open>NameError\<close>.\<close>

definition lookup :: "string \<Rightarrow> 's world \<Rightarrow> pyexc + pyval" where
  "lookup x w =
     (case globals w x of
        Some v \<Rightarrow> Inr v
      | None \<Rightarrow>
          if x \<in> set builtin_functions then Inr (PyBuiltinFn x)
          else if x \<in> set builtin_classes then Inr (PyClass x)
          else Inl (NameError x))"

text \<open>The argument list of a call, evaluated left to right.\<close>

fun eval_names :: "string list \<Rightarrow> 's world \<Rightarrow> pyexc + pyval list" where
  "eval_names [] w = Inr []"
| "eval_names (x # xs) w =
     (case lookup x w of
        Inl err \<Rightarrow> Inl err
      | Inr v \<Rightarrow> (case eval_names xs w of Inl err \<Rightarrow> Inl err | Inr vs \<Rightarrow> Inr (v # vs)))"

text \<open>Calling into the collaborator.\<close>

definition record_call :: "entry \<Rightarrow> pyval list \<Rightarrow> reply \<Rightarrow> 's \<Rightarrow> 's world \<Rightarrow> 's world" where
  "record_call f args r s' w =
     w\<lparr>stdout := stdout w @ out r, cstate := s', calls := calls w @ [(f, args, r)]\<rparr>"

definition invoke :: "'s collab \<Rightarrow> entry \<Rightarrow> pyval list \<Rightarrow> 's stmt" where
  "invoke c f args w =
     (case c f args (cstate w) of
        (r, s') \<Rightarrow>
          (case res r of
             Returned v \<Rightarrow> Normal (record_call f args r s' w)
           | Raised x \<Rightarrow> Raise x (record_call f args r s' w)))"

text \<open>
  The expression statement \<^verbatim>\<open>f(a, ...)\<close> with names for the callee and the arguments:
  the callee is evaluated first, then the arguments, then the call is made and its
  value dropped. Of the values here only the three imported functions are callable
  through this statement (the script calls no builtin this way).
\<close>

definition call_stmt :: "'s collab \<Rightarrow> string \<Rightarrow> string list \<Rightarrow> 's stmt" where
  "call_stmt c fname argnames w =
     (case lookup fname w of
        Inl err \<Rightarrow> Raise err w
      | Inr fv \<Rightarrow>
          (case eval_names argnames w of
             Inl err \<Rightarrow> Raise err w
           | Inr args \<Rightarrow>
               (case fv of
                  PyFunc f \<Rightarrow> invoke c f args w
                | _ \<Rightarrow> Raise (TypeError_not_callable fv) w)))"

section \<open>The script\<close>

text \<open>
  Lines 1 and 2. The collaborator is taken as installed and exporting the three names
  (the contract of the external interface), so the imports bind and do not raise.
\<close>

definition import_novacore :: "'s stmt" where
  "import_novacore w =
     Normal (w\<lparr>globals := (globals w)
       (''login'' \<mapsto> PyFunc Login, ''login_silent'' \<mapsto> PyFunc LoginSilent,
        ''login_noexit'' \<mapsto> PyFunc LoginNoexit)\<rparr>)"

definition import_sys :: "'s stmt" where
  "import_sys w = Normal (w\<lparr>globals := (globals w)(''sys'' \<mapsto> PyModule ''sys'')\<rparr>)"

text \<open>
  The argument of \<^verbatim>\<open>print\<close> in the three handlers, kept as the source writes it:
  \<^verbatim>\<open>"Something went wrong, Here's a preview for developers:"+"\n"+e\<close>,
  that is, \<^verbatim>\<open>(prefix + "\n") + e\<close>.
\<close>

definition diagnostic :: "pyval \<Rightarrow> pyexc + string" where
  "diagnostic e =
     (case str_add ''Something went wrong, Here's a preview for developers:''
             (PyStr [CHR 0x0A]) of
        Inl err \<Rightarrow> Inl err
      | Inr s \<Rightarrow> str_add s e)"

text \<open>
  \<^verbatim>\<open>print(v)\<close> writes \<^verbatim>\<open>str(v)\<close>, here \<open>s\<close>, and a newline. The script never rebinds
  \<^verbatim>\<open>print\<close>, \<^verbatim>\<open>Exception\<close> or \<^verbatim>\<open>sys\<close>, so these three are taken by their meaning.
\<close>

definition print_str :: "string \<Rightarrow> 's stmt" where
  "print_str s w = Normal (w\<lparr>stdout := stdout w @ s @ [CHR 0x0A]\<rparr>)"

text \<open>\<^verbatim>\<open>sys.exit(a)\<close> raises \<^verbatim>\<open>SystemExit(a)\<close>.\<close>

definition sys_exit :: "exit_arg \<Rightarrow> 's stmt" where
  "sys_exit a w = Raise (SystemExit a) w"

text \<open>
  The body of each \<^verbatim>\<open>except Exception as e:\<close> clause: \<^verbatim>\<open>e\<close> is bound, the two
  statements run, and \<^verbatim>\<open>e\<close> is unbound again however the clause is left.
\<close>

definition unbind_e :: "'s world \<Rightarrow> 's world" where
  "unbind_e w = w\<lparr>globals := (globals w)(''e'' := None)\<rparr>"

definition handler :: "pyexc \<Rightarrow> 's stmt" where
  "handler x w =
     (let w1 = w\<lparr>globals := (globals w)(''e'' \<mapsto> PyExcV x)\<rparr> in
      case lookup ''e'' w1 of
        Inl err \<Rightarrow> Raise err (unbind_e w1)
      | Inr ev \<Rightarrow>
          (case diagnostic ev of
             Inl err \<Rightarrow> Raise err (unbind_e w1)
           | Inr msg \<Rightarrow>
               (case seq (print_str msg) (sys_exit (ExitInt 1)) w1 of
                  Normal w2 \<Rightarrow> Normal (unbind_e w2)
                | Raise err w2 \<Rightarrow> Raise err (unbind_e w2))))"

text \<open>
  \<^verbatim>\<open>try: body  except Exception as e: handler\<close>. Only instances of classes derived
  from \<^verbatim>\<open>Exception\<close> enter the handler; anything else raised passes through.
\<close>

definition try_except :: "'s stmt \<Rightarrow> 's stmt" where
  "try_except body w =
     (case body w of
        Normal w' \<Rightarrow> Normal w'
      | Raise x w' \<Rightarrow> if is_Exception x then handler x w' else Raise x w')"

text \<open>Lines 5 to 23: the three guarded calls.\<close>

definition guarded_calls :: "'s collab \<Rightarrow> 's stmt" where
  "guarded_calls c =
     seq (try_except (call_stmt c ''login'' []))
    (seq (try_except (call_stmt c ''login_silent'' []))
         (try_except (call_stmt c ''login_noexit'' [])))"

text \<open>Lines 30 to 32: the calls with \<^verbatim>\<open>path\<close>, outside any \<^verbatim>\<open>try\<close>.\<close>

definition path_calls :: "'s collab \<Rightarrow> 's stmt" where
  "path_calls c =
     seq (call_stmt c ''login'' [''path''])
    (seq (call_stmt c ''login_noexit'' [''path''])
         (call_stmt c ''login_silent'' [''path'']))"

definition script :: "'s collab \<Rightarrow> 's stmt" where
  "script c = seq import_novacore (seq import_sys (seq (guarded_calls c) (path_calls c)))"

text \<open>
  The module namespace when the interpreter starts running the file as a program, and
  the run of the script from there. Only which names are bound matters below; the
  loader and annotation objects are stood in for by \<^verbatim>\<open>None\<close>.
\<close>

definition main_globals :: "string \<rightharpoonup> pyval" where
  "main_globals =
     [''__name__'' \<mapsto> PyStr ''__main__'', ''__doc__'' \<mapsto> PyNone, ''__package__'' \<mapsto> PyNone,
      ''__loader__'' \<mapsto> PyNone, ''__spec__'' \<mapsto> PyNone, ''__annotations__'' \<mapsto> PyNone,
      ''__builtins__'' \<mapsto> PyModule ''builtins'', ''__file__'' \<mapsto> PyStr ''usage.py'',
      ''__cached__'' \<mapsto> PyNone]"

definition initial :: "'s \<Rightarrow> 's world" where
  "initial s = \<lparr>stdout = [], globals = main_globals, cstate = s, calls = []\<rparr>"

definition run :: "'s collab \<Rightarrow> 's \<Rightarrow> 's world flow" where
  "run c s = script c (initial s)"

section \<open>How the process ends\<close>

text \<open>
  At the top level the interpreter turns the way the module body ended into the
  process status, as a POSIX parent process reads it. Falling off the end is status 0.
  \<^verbatim>\<open>SystemExit\<close> gives the status of its argument: \<^verbatim>\<open>None\<close> is 0; an integer is
  converted to a C \<^verbatim>\<open>long\<close> (64 bits) and handed to \<^verbatim>\<open>exit\<close>, which keeps its low 8
  bits, and an integer outside the range of \<^verbatim>\<open>long\<close> fails to convert and gives 255;
  any other object is printed to standard error with status 1. An uncaught
  \<^verbatim>\<open>KeyboardInterrupt\<close> ends the process through the interrupt path (killed by SIGINT,
  which a shell shows as 130; CPython 3.8 and later), and any other uncaught
  exception prints a traceback to standard error with status 1.
\<close>

definition c_long_status :: "int \<Rightarrow> int" where
  "c_long_status n = (if - (2 ^ 63) \<le> n \<and> n < 2 ^ 63 then n mod 256 else 255)"

fun system_exit_status :: "exit_arg \<Rightarrow> int" where
  "system_exit_status ExitNone = 0"
| "system_exit_status (ExitInt n) = c_long_status n"
| "system_exit_status (ExitObj s) = 1"

datatype status = ExitCode int | Interrupted

fun exit_status :: "'w flow \<Rightarrow> status" where
  "exit_status (Normal w) = ExitCode 0"
| "exit_status (Raise (SystemExit a) w) = ExitCode (system_exit_status a)"
| "exit_status (Raise KeyboardInterrupt w) = Interrupted"
| "exit_status (Raise (Exc cls txt rd) w) = ExitCode 1"
| "exit_status (Raise (BaseExc cls txt) w) = ExitCode 1"

text \<open>
  The status an exception carries, if it carries one: only \<^verbatim>\<open>SystemExit\<close> does, and
  the process reports it as above.
\<close>

fun carried_status :: "pyexc \<Rightarrow> int option" where
  "carried_status (SystemExit a) = Some (system_exit_status a)"
| "carried_status x = None"

text \<open>Text the collaborator wrote during the logged calls.\<close>

definition collab_output :: "(entry \<times> pyval list \<times> reply) list \<Rightarrow> string" where
  "collab_output log = concat (map (\<lambda>(f, args, r). out r) log)"

text \<open>The exception that ended the module body, if one did.\<close>

fun raised_of :: "'w flow \<Rightarrow> pyexc option" where
  "raised_of (Normal w) = None"
| "raised_of (Raise x w) = Some x"

definition raised :: "reply \<Rightarrow> bool" where
  "raised r = (case res r of Returned v \<Rightarrow> False | Raised x \<Rightarrow> True)"

section \<open>Auxiliary notions for the proofs\<close>

text \<open>The bindings the guarded calls rely on: the three imported names.\<close>

definition entry_names :: "'s world \<Rightarrow> bool" where
  "entry_names w \<longleftrightarrow>
     globals w ''login'' = Some (PyFunc Login) \<and>
     globals w ''login_silent'' = Some (PyFunc LoginSilent) \<and>
     globals w ''login_noexit'' = Some (PyFunc LoginNoexit)"

text \<open>The world after lines 1 and 2 of a run.\<close>

definition imported :: "'s \<Rightarrow> 's world" where
  "imported s =
     \<lparr>stdout = [],
      globals = main_globals
        (''login'' \<mapsto> PyFunc Login, ''login_silent'' \<mapsto> PyFunc LoginSilent,
         ''login_noexit'' \<mapsto> PyFunc LoginNoexit, ''sys'' \<mapsto> PyModule ''sys''),
      cstate = s, calls = []\<rparr>"

text \<open>An exception class without \<^verbatim>\<open>__radd__\<close>, as every built-in one is.\<close>

fun no_radd :: "pyexc \<Rightarrow> bool" where
  "no_radd (Exc cls txt rd) = (case rd of None \<Rightarrow> True | Some radd \<Rightarrow> False)"
| "no_radd x = True"

text \<open>
  What a handler does with the caught \<open>x\<close>, read off the argument of its \<^verbatim>\<open>print\<close>:
  the exception it leaves by, and the text it writes before.
\<close>

definition handler_exit :: "pyexc \<Rightarrow> pyexc" where
  "handler_exit x =
     (case diagnostic (PyExcV x) of Inl err \<Rightarrow> err | Inr t \<Rightarrow> SystemExit (ExitInt 1))"

definition handler_text :: "pyexc \<Rightarrow> string" where
  "handler_text x = (case diagnostic (PyExcV x) of Inl err \<Rightarrow> [] | Inr t \<Rightarrow> t @ [CHR 0x0A])"

text \<open>
  What leaves a guarded block when its call raised \<open>x\<close>: the handler's exit if \<open>x\<close> was
  caught, \<open>x\<close> itself if not; the text the script writes then; and the world it leaves.
\<close>

definition surfaced :: "pyexc \<Rightarrow> pyexc" where
  "surfaced x = (if is_Exception x then handler_exit x else x)"

definition script_text :: "pyexc \<Rightarrow> string" where
  "script_text x = (if is_Exception x then handler_text x else [])"

definition left_world :: "pyexc \<Rightarrow> 's world \<Rightarrow> 's world" where
  "left_world x w =
     (if is_Exception x then unbind_e (w\<lparr>stdout := stdout w @ handler_text x\<rparr>) else w)"

text \<open>
  What of a reply the claims call the collaborator's behaviour: the text it wrote and
  whether it returned or raised which exception; the returned value, which the script
  drops, is left out. The observed log keeps this of every call.
\<close>

definition observable :: "reply \<Rightarrow> string \<times> pyexc option" where
  "observable r = (out r, case res r of Returned v \<Rightarrow> None | Raised x \<Rightarrow> Some x)"

definition observed ::
  "(entry \<times> pyval list \<times> reply) list \<Rightarrow> (entry \<times> pyval list \<times> string \<times> pyexc option) list" where
  "observed log = map (\<lambda>(f, args, r). (f, args, observable r)) log"

text \<open>
  The exception a run ends with and the text the script itself writes, read off the
  observed log of collaborator calls.
\<close>

definition log_exception :: "(entry \<times> pyval list \<times> string \<times> pyexc option) list \<Rightarrow> pyexc" where
  "log_exception olog =
     (case snd (snd (snd (last olog))) of
        Some x \<Rightarrow> surfaced x
      | None \<Rightarrow> NameError ''path'')"

definition log_text :: "(entry \<times> pyval list \<times> string \<times> pyexc option) list \<Rightarrow> string" where
  "log_text olog =
     (case snd (snd (snd (last olog))) of
        Some x \<Rightarrow> script_text x
      | None \<Rightarrow> [])"

definition log_output :: "(entry \<times> pyval list \<times> string \<times> pyexc option) list \<Rightarrow> string" where
  "log_output olog = concat (map (\<lambda>(f, args, t, e). t) olog)"

text \<open>
  The namespace of a program that binds \<^verbatim>\<open>path\<close> before the statements of the script
  run, as the comment above line 30 asks of its reader.
\<close>

definition bind_path :: "pyval \<Rightarrow> 's world \<Rightarrow> 's world" where
  "bind_path p w = w\<lparr>globals := (globals w)(''path'' \<mapsto> p)\<rparr>"

section \<open>Concrete collaborators\<close>

definition quiet :: "call_result \<Rightarrow> reply" where
  "quiet r = \<lparr>out = [], res = r\<rparr>"

text \<open>Every call returns \<^verbatim>\<open>None\<close> and prints nothing.\<close>

definition c_all_ok :: "unit collab" where
  "c_all_ok f args s = (quiet (Returned PyNone), s)"

text \<open>As \<open>c_all_ok\<close>, remembering the argument list of every call it receives.\<close>

definition c_recording :: "(pyval list list) collab" where
  "c_recording f args s = (quiet (Returned PyNone), s @ [args])"

text \<open>\<^verbatim>\<open>login()\<close> raises an \<^verbatim>\<open>Exception\<close> subclass.\<close>

definition c_login_fails :: "unit collab" where
  "c_login_fails f args s =
     (case f of
        Login \<Rightarrow> (quiet (Raised (Exc ''ValueError'' ''malformed license'' None)), s)
      | _ \<Rightarrow> (quiet (Returned PyNone), s))"

text \<open>\<^verbatim>\<open>login_silent()\<close> raises \<^verbatim>\<open>ConfigNotFound\<close>, the scenario of the specification.\<close>

definition c_silent_config_missing :: "unit collab" where
  "c_silent_config_missing f args s =
     (case f of
        LoginSilent \<Rightarrow>
          (quiet (Raised (Exc ''ConfigNotFound'' ''config/config.json not found'' None)), s)
      | _ \<Rightarrow> (quiet (Returned PyNone), s))"

text \<open>
  \<^verbatim>\<open>login_noexit()\<close> finds a mismatch, logs it and returns without raising.
\<close>

definition c_noexit_mismatch :: "unit collab" where
  "c_noexit_mismatch f args s =
     (case f of
        LoginNoexit \<Rightarrow> (\<lparr>out = ''license mismatch'' @ [CHR 0x0A], res = Returned (PyBool False)\<rparr>, s)
      | _ \<Rightarrow> (quiet (Returned PyNone), s))"

text \<open>\<^verbatim>\<open>login()\<close> raises \<^verbatim>\<open>GeneratorExit\<close>, a \<^verbatim>\<open>BaseException\<close> outside \<^verbatim>\<open>Exception\<close>.\<close>

definition c_login_base :: "unit collab" where
  "c_login_base f args s =
     (case f of
        Login \<Rightarrow> (quiet (Raised (BaseExc ''GeneratorExit'' [])), s)
      | _ \<Rightarrow> (quiet (Returned PyNone), s))"

text \<open>\<^verbatim>\<open>login_silent()\<close> finds a mismatch and leaves through \<^verbatim>\<open>sys.exit(3)\<close>.\<close>

definition c_silent_exits :: "unit collab" where
  "c_silent_exits f args s =
     (case f of
        LoginSilent \<Rightarrow> (\<lparr>out = ''license mismatch'' @ [CHR 0x0A], res = Raised (SystemExit (ExitInt 3))\<rparr>, s)
      | _ \<Rightarrow> (quiet (Returned PyNone), s))"

text \<open>\<^verbatim>\<open>login()\<close> leaves through \<^verbatim>\<open>sys.exit(0)\<close>.\<close>

definition c_login_exits_zero :: "unit collab" where
  "c_login_exits_zero f args s =
     (case f of
        Login \<Rightarrow> (quiet (Raised (SystemExit (ExitInt 0))), s)
      | _ \<Rightarrow> (quiet (Returned PyNone), s))"

text \<open>
  An exception class of the collaborator that defines
  \<^verbatim>\<open>def __radd__(self, other): return other + str(self)\<close>, and \<^verbatim>\<open>login()\<close> raising it.
\<close>

definition license_error :: pyexc where
  "license_error = Exc ''LicenseError'' ''license expired'' (Some (\<lambda>a. Gives (a @ ''license expired'')))"

definition c_login_radd :: "unit collab" where
  "c_login_radd f args s =
     (case f of
        Login \<Rightarrow> (quiet (Raised license_error), s)
      | _ \<Rightarrow> (quiet (Returned PyNone), s))"

text \<open>
  As \<open>c_silent_exits\<close> to the eye of the script, but counting its calls and returning
  \<^verbatim>\<open>True\<close> where that one returns \<^verbatim>\<open>None\<close>.
\<close>

definition c_silent_exits_counting :: "nat collab" where
  "c_silent_exits_counting f args n =
     (case f of
        LoginSilent \<Rightarrow>
          (\<lparr>out = ''license mismatch'' @ [CHR 0x0A], res = Raised (SystemExit (ExitInt 3))\<rparr>, Suc n)
      | _ \<Rightarrow> (quiet (Returned (PyBool True)), Suc n))"

section \<open>The guarded calls, block by block\<close>

lemma path_not_builtin: "''path'' \<notin> set builtin_functions" "''path'' \<notin> set builtin_classes"
  by (simp_all add: builtin_functions_def builtin_classes_def)

lemma record_call_simps:
  "stdout (record_call f args r s' w) = stdout w @ out r"
  "calls (record_call f args r s' w) = calls w @ [(f, args, r)]"
  "cstate (record_call f args r s' w) = s'"
  "globals (record_call f args r s' w) = globals w"
  by (simp_all add: record_call_def)

lemma left_world_simps:
  "stdout (left_world x w) = stdout w @ script_text x" "calls (left_world x w) = calls w"
  "cstate (left_world x w) = cstate w"
  by (simp_all add: left_world_def unbind_e_def script_text_def)

lemma entry_names_record_call: "entry_names (record_call f args r s' w) = entry_names w"
  by (simp add: entry_names_def record_call_def)

lemma entry_names_bind_path: "entry_names (bind_path p w) = entry_names w"
  by (simp add: entry_names_def bind_path_def)

lemma bind_path_simps:
  "stdout (bind_path p w) = stdout w" "calls (bind_path p w) = calls w"
  "cstate (bind_path p w) = cstate w" "globals (bind_path p w) ''path'' = Some p"
  by (simp_all add: bind_path_def)

lemma imported_simps:
  "entry_names (imported s)" "globals (imported s) ''path'' = None"
  "stdout (imported s) = []" "calls (imported s) = []" "cstate (imported s) = s"
  by (simp_all add: imported_def entry_names_def main_globals_def)

lemma diagnostic_no_radd:
  assumes "no_radd x"
  shows "diagnostic (PyExcV x) = Inl (TypeError_concat (PyExcV x))"
proof (cases x)
  case (Exc cls msg rd)
  then show ?thesis using assms by (cases rd) (simp_all add: diagnostic_def)
qed (simp_all add: diagnostic_def)

lemma diagnostic_other:
  assumes "\<forall>s. v \<noteq> PyStr s" and "\<forall>x. v \<noteq> PyExcV x"
  shows "diagnostic v = Inl (TypeError_concat v)"
  using assms by (cases v) (simp_all add: diagnostic_def)

lemma diagnostic_str:
  "diagnostic (PyStr s) =
     Inr (''Something went wrong, Here's a preview for developers:'' @ [CHR 0x0A] @ s)"
  by (simp add: diagnostic_def)

lemma handler_raises:
  "handler x w = Raise (handler_exit x) (unbind_e (w\<lparr>stdout := stdout w @ handler_text x\<rparr>))"
  by (simp add: handler_def lookup_def Let_def handler_exit_def handler_text_def seq_def
      print_str_def sys_exit_def unbind_e_def split: sum.splits)

lemma handler_no_radd:
  assumes "no_radd x"
  shows "handler_exit x = TypeError_concat (PyExcV x)" and "handler_text x = []"
  using diagnostic_no_radd [OF assms] by (simp_all add: handler_exit_def handler_text_def)

lemma call_noargs:
  assumes "globals w fname = Some (PyFunc f)" "c f [] (cstate w) = (r, s')"
  shows "call_stmt c fname [] w =
           (case res r of Returned v \<Rightarrow> Normal (record_call f [] r s' w)
                        | Raised x \<Rightarrow> Raise x (record_call f [] r s' w))"
  using assms by (simp add: call_stmt_def lookup_def invoke_def)

lemma block_returned:
  assumes "globals w fname = Some (PyFunc f)" "c f [] (cstate w) = (r, s')" "res r = Returned v"
  shows "try_except (call_stmt c fname []) w = Normal (record_call f [] r s' w)"
  using assms by (simp add: try_except_def call_noargs)

lemma block_raised:
  assumes "globals w fname = Some (PyFunc f)" "c f [] (cstate w) = (r, s')" "res r = Raised x"
  shows "try_except (call_stmt c fname []) w =
           Raise (surfaced x) (left_world x (record_call f [] r s' w))"
  using assms
  by (simp add: try_except_def call_noargs handler_raises surfaced_def left_world_def)

lemma path_calls_raise:
  assumes "entry_names w" and "globals w ''path'' = None"
  shows "path_calls c w = Raise (NameError ''path'') w"
  using assms
  by (simp add: path_calls_def seq_def call_stmt_def lookup_def entry_names_def path_not_builtin)

lemma call_stmt_forwards:
  assumes "globals w fname = Some (PyFunc f)" "globals w x = Some p"
  shows "call_stmt c fname [x] w = invoke c f [p] w"
  using assms by (simp add: call_stmt_def lookup_def)

lemma prefix_imported:
  "seq import_novacore (seq import_sys (guarded_calls c)) (initial s) = guarded_calls c (imported s)"
  by (simp add: seq_def import_novacore_def import_sys_def initial_def imported_def)

lemma run_imported: "run c s = seq (guarded_calls c) (path_calls c) (imported s)"
  by (simp add: run_def script_def seq_def import_novacore_def import_sys_def
      initial_def imported_def)

lemma guarded_login_raised:
  assumes "entry_names w" "c Login [] (cstate w) = (r1, s1)" "res r1 = Raised x"
  shows "guarded_calls c w = Raise (surfaced x) (left_world x (record_call Login [] r1 s1 w))"
proof -
  have g: "globals w ''login'' = Some (PyFunc Login)"
    using assms(1) by (simp add: entry_names_def)
  have "try_except (call_stmt c ''login'' []) w =
          Raise (surfaced x) (left_world x (record_call Login [] r1 s1 w))"
    using g assms(2,3) by (rule block_raised)
  then show ?thesis
    by (simp add: guarded_calls_def seq_def)
qed

lemma guarded_silent_raised:
  assumes "entry_names w" "c Login [] (cstate w) = (r1, s1)" "res r1 = Returned v1"
    "c LoginSilent [] s1 = (r2, s2)" "res r2 = Raised x"
  shows "guarded_calls c w =
           Raise (surfaced x)
             (left_world x (record_call LoginSilent [] r2 s2 (record_call Login [] r1 s1 w)))"
proof -
  define w1 where "w1 = record_call Login [] r1 s1 w"
  have g: "globals w ''login'' = Some (PyFunc Login)"
    using assms(1) by (simp add: entry_names_def)
  have b1: "try_except (call_stmt c ''login'' []) w = Normal w1"
    unfolding w1_def using g assms(2,3) by (rule block_returned)
  have g1: "globals w1 ''login_silent'' = Some (PyFunc LoginSilent)"
    using assms(1) by (simp add: w1_def entry_names_def record_call_simps)
  have c1: "c LoginSilent [] (cstate w1) = (r2, s2)"
    using assms(4) by (simp add: w1_def record_call_simps)
  have b2: "try_except (call_stmt c ''login_silent'' []) w1 =
          Raise (surfaced x) (left_world x (record_call LoginSilent [] r2 s2 w1))"
    using g1 c1 assms(5) by (rule block_raised)
  show ?thesis
    unfolding w1_def [symmetric]
    by (simp add: guarded_calls_def seq_def b1 b2)
qed

lemma guarded_noexit:
  assumes "entry_names w" "c Login [] (cstate w) = (r1, s1)" "res r1 = Returned v1"
    "c LoginSilent [] s1 = (r2, s2)" "res r2 = Returned v2"
    "c LoginNoexit [] s2 = (r3, s3)"
  shows "guarded_calls c w =
     (case res r3 of
        Raised x \<Rightarrow> Raise (surfaced x)
           (left_world x (record_call LoginNoexit [] r3 s3
              (record_call LoginSilent [] r2 s2 (record_call Login [] r1 s1 w))))
      | Returned v3 \<Rightarrow> Normal
           (record_call LoginNoexit [] r3 s3
              (record_call LoginSilent [] r2 s2 (record_call Login [] r1 s1 w))))"
proof -
  define w1 where "w1 = record_call Login [] r1 s1 w"
  define w2 where "w2 = record_call LoginSilent [] r2 s2 w1"
  define w3 where "w3 = record_call LoginNoexit [] r3 s3 w2"
  have g: "globals w ''login'' = Some (PyFunc Login)"
    using assms(1) by (simp add: entry_names_def)
  have b1: "try_except (call_stmt c ''login'' []) w = Normal w1"
    unfolding w1_def using g assms(2,3) by (rule block_returned)
  have n1: "entry_names w1" using assms(1) by (simp add: w1_def entry_names_record_call)
  have g1: "globals w1 ''login_silent'' = Some (PyFunc LoginSilent)"
    using n1 by (simp add: entry_names_def)
  have c1: "c LoginSilent [] (cstate w1) = (r2, s2)"
    using assms(4) by (simp add: w1_def record_call_simps)
  have b2: "try_except (call_stmt c ''login_silent'' []) w1 = Normal w2"
    unfolding w2_def using g1 c1 assms(5) by (rule block_returned)
  have n2: "entry_names w2" using n1 by (simp add: w2_def entry_names_record_call)
  have g2: "globals w2 ''login_noexit'' = Some (PyFunc LoginNoexit)"
    using n2 by (simp add: entry_names_def)
  have c2: "c LoginNoexit [] (cstate w2) = (r3, s3)"
    using assms(6) by (simp add: w2_def record_call_simps)
  show ?thesis
  proof (cases "res r3")
    case (Returned v3)
    have b3: "try_except (call_stmt c ''login_noexit'' []) w2 = Normal w3"
      unfolding w3_def using g2 c2 Returned by (rule block_returned)
    have "guarded_calls c w = Normal w3"
      by (simp add: guarded_calls_def seq_def b1 b2 b3)
    then show ?thesis
      by (simp add: Returned w3_def w2_def w1_def)
  next
    case (Raised x)
    have b3: "try_except (call_stmt c ''login_noexit'' []) w2 =
        Raise (surfaced x) (left_world x w3)"
      unfolding w3_def using g2 c2 Raised by (rule block_raised)
    have "guarded_calls c w = Raise (surfaced x) (left_world x w3)"
      by (simp add: guarded_calls_def seq_def b1 b2 b3)
    then show ?thesis
      by (simp add: Raised w3_def w2_def w1_def)
  qed
qed

text \<open>Every run, by the replies of the collaborator.\<close>

lemma run_login_raised:
  assumes "c Login [] s = (r1, s1)" "res r1 = Raised x"
  shows "run c s = Raise (surfaced x) (left_world x (record_call Login [] r1 s1 (imported s)))"
  using guarded_login_raised [where w="imported s" and c=c and ?r1.0=r1 and ?s1.0=s1 and x=x] assms
  by (simp add: run_imported imported_simps seq_def)

lemma run_silent_raised:
  assumes "c Login [] s = (r1, s1)" "res r1 = Returned v1"
    "c LoginSilent [] s1 = (r2, s2)" "res r2 = Raised x"
  shows "run c s = Raise (surfaced x)
     (left_world x (record_call LoginSilent [] r2 s2 (record_call Login [] r1 s1 (imported s))))"
  using guarded_silent_raised [where w="imported s" and c=c and ?r1.0=r1 and ?s1.0=s1 and x=x
      and ?v1.0=v1 and ?r2.0=r2 and ?s2.0=s2] assms
  by (simp add: run_imported imported_simps seq_def)

lemma run_noexit_raised:
  assumes "c Login [] s = (r1, s1)" "res r1 = Returned v1"
    "c LoginSilent [] s1 = (r2, s2)" "res r2 = Returned v2"
    "c LoginNoexit [] s2 = (r3, s3)" "res r3 = Raised x"
  shows "run c s = Raise (surfaced x)
     (left_world x (record_call LoginNoexit [] r3 s3
        (record_call LoginSilent [] r2 s2 (record_call Login [] r1 s1 (imported s)))))"
  using guarded_noexit [where w="imported s" and c=c and ?r1.0=r1 and ?s1.0=s1
      and ?v1.0=v1 and ?r2.0=r2 and ?s2.0=s2 and ?v2.0=v2 and ?r3.0=r3 and ?s3.0=s3] assms
  by (simp add: run_imported imported_simps seq_def)

lemma run_all_returned:
  assumes "c Login [] s = (r1, s1)" "res r1 = Returned v1"
    "c LoginSilent [] s1 = (r2, s2)" "res r2 = Returned v2"
    "c LoginNoexit [] s2 = (r3, s3)" "res r3 = Returned v3"
  shows "guarded_calls c (imported s) = Normal (record_call LoginNoexit [] r3 s3
        (record_call LoginSilent [] r2 s2 (record_call Login [] r1 s1 (imported s))))"
    and "run c s = Raise (NameError ''path'')
     (record_call LoginNoexit [] r3 s3
        (record_call LoginSilent [] r2 s2 (record_call Login [] r1 s1 (imported s))))"
proof -
  show g: "guarded_calls c (imported s) = Normal (record_call LoginNoexit [] r3 s3
        (record_call LoginSilent [] r2 s2 (record_call Login [] r1 s1 (imported s))))"
    using guarded_noexit [where w="imported s" and c=c and ?r1.0=r1 and ?s1.0=s1
      and ?v1.0=v1 and ?r2.0=r2 and ?s2.0=s2 and ?v2.0=v2 and ?r3.0=r3 and ?s3.0=s3] assms
    by (simp add: imported_simps)
  show "run c s = Raise (NameError ''path'')
     (record_call LoginNoexit [] r3 s3
        (record_call LoginSilent [] r2 s2 (record_call Login [] r1 s1 (imported s))))"
    by (simp add: run_imported seq_def g path_calls_raise entry_names_record_call imported_simps
        record_call_simps)
qed

lemmas world_simps = record_call_simps left_world_simps imported_simps

lemma exit_status_world: "exit_status (Raise x w) = exit_status (Raise x w')"
  by (cases x) simp_all

lemma exit_status_raised_of:
  "raised_of fl = raised_of fl' \<Longrightarrow> exit_status fl = exit_status fl'"
  by (cases fl; cases fl') (auto intro: exit_status_world)

lemma collab_output_observed: "collab_output log = log_output (observed log)"
  by (induction log) (auto simp add: collab_output_def log_output_def observed_def observable_def)

lemma observable_simps:
  "res r = Raised x \<Longrightarrow> observable r = (out r, Some x)"
  "res r = Returned v \<Longrightarrow> observable r = (out r, None)"
  by (simp_all add: observable_def)

lemma run_log:
  "raised_of (run c s) = Some (log_exception (observed (calls (world_of (run c s))))) \<and>
   stdout (world_of (run c s)) =
     log_output (observed (calls (world_of (run c s)))) @
     log_text (observed (calls (world_of (run c s))))"
proof -
  obtain r1 s1 where c1: "c Login [] s = (r1, s1)" by (cases "c Login [] s")
  obtain r2 s2 where c2: "c LoginSilent [] s1 = (r2, s2)" by (cases "c LoginSilent [] s1")
  obtain r3 s3 where c3: "c LoginNoexit [] s2 = (r3, s3)" by (cases "c LoginNoexit [] s2")
  show ?thesis
  proof (cases "res r1")
    case (Raised x)
    show ?thesis
      by (simp add: run_login_raised [where c=c, OF c1 Raised] world_simps log_exception_def
          log_text_def log_output_def observed_def observable_simps Raised)
  next
    case r1: (Returned v1)
    show ?thesis
    proof (cases "res r2")
      case (Raised x)
      show ?thesis
        by (simp add: run_silent_raised [where c=c, OF c1 r1 c2 Raised] world_simps
            log_exception_def log_text_def log_output_def observed_def observable_simps
            Raised r1)
    next
      case r2: (Returned v2)
      show ?thesis
      proof (cases "res r3")
        case (Raised x)
        show ?thesis
          by (simp add: run_noexit_raised [where c=c, OF c1 r1 c2 r2 c3 Raised] world_simps
              log_exception_def log_text_def log_output_def observed_def observable_simps
              Raised r1 r2)
      next
        case r3: (Returned v3)
        show ?thesis
          by (simp add: run_all_returned(2) [where c=c, OF c1 r1 c2 r2 c3 r3] world_simps
              log_exception_def log_text_def log_output_def observed_def observable_simps
              r1 r2 r3)
      qed
    qed
  qed
qed

lemma run_calls:
  assumes "c Login [] s = (r1, s1)" "c LoginSilent [] s1 = (r2, s2)"
    "c LoginNoexit [] s2 = (r3, s3)"
  shows "calls (world_of (run c s)) =
     (if raised r1 then [(Login, [], r1)]
      else if raised r2 then [(Login, [], r1), (LoginSilent, [], r2)]
      else [(Login, [], r1), (LoginSilent, [], r2), (LoginNoexit, [], r3)])"
proof (cases "res r1")
  case (Raised x)
  show ?thesis
    by (simp add: run_login_raised [where c=c, OF assms(1) Raised] world_simps raised_def Raised)
next
  case r1: (Returned v1)
  show ?thesis
  proof (cases "res r2")
    case (Raised x)
    show ?thesis
      by (simp add: run_silent_raised [where c=c, OF assms(1) r1 assms(2) Raised] world_simps
          raised_def r1 Raised)
  next
    case r2: (Returned v2)
    show ?thesis
    proof (cases "res r3")
      case (Raised x)
      show ?thesis
        by (simp add: run_noexit_raised [where c=c, OF assms(1) r1 assms(2) r2 assms(3) Raised]
            world_simps raised_def r1 r2)
    next
      case r3: (Returned v3)
      show ?thesis
        by (simp add: run_all_returned(2) [where c=c, OF assms(1) r1 assms(2) r2 assms(3) r3]
            world_simps raised_def r1 r2)
    qed
  qed
qed

lemma raised_is_last:
  assumes "(f, a, r) \<in> set (calls (world_of (run c s)))" "res r = Raised x"
  shows "last (calls (world_of (run c s))) = (f, a, r)"
proof -
  obtain r1 s1 where c1: "c Login [] s = (r1, s1)" by (cases "c Login [] s")
  obtain r2 s2 where c2: "c LoginSilent [] s1 = (r2, s2)" by (cases "c LoginSilent [] s1")
  obtain r3 s3 where c3: "c LoginNoexit [] s2 = (r3, s3)" by (cases "c LoginNoexit [] s2")
  show ?thesis
    using assms unfolding run_calls [where c=c, OF c1 c2 c3]
    by (auto simp add: raised_def split: if_splits call_result.splits)
qed

lemma calls_nonempty: "calls (world_of (run c s)) \<noteq> []"
proof -
  obtain r1 s1 where c1: "c Login [] s = (r1, s1)" by (cases "c Login [] s")
  obtain r2 s2 where c2: "c LoginSilent [] s1 = (r2, s2)" by (cases "c LoginSilent [] s1")
  obtain r3 s3 where c3: "c LoginNoexit [] s2 = (r3, s3)" by (cases "c LoginNoexit [] s2")
  show ?thesis
    unfolding run_calls [where c=c, OF c1 c2 c3] by simp
qed

lemma raised_reply_ends_run:
  assumes "(f, a, r) \<in> set (calls (world_of (run c s)))" and "res r = Raised x"
  shows "raised_of (run c s) = Some (surfaced x)"
    and "stdout (world_of (run c s)) =
           collab_output (calls (world_of (run c s))) @ script_text x"
proof -
  have l: "last (calls (world_of (run c s))) = (f, a, r)"
    using assms by (rule raised_is_last)
  have o: "snd (snd (snd (last (observed (calls (world_of (run c s))))))) = Some x"
    using l assms(2) calls_nonempty [of c s]
    by (simp add: observed_def last_map observable_simps)
  show "raised_of (run c s) = Some (surfaced x)"
    using run_log [of c s] o by (simp add: log_exception_def)
  show "stdout (world_of (run c s)) =
           collab_output (calls (world_of (run c s))) @ script_text x"
    using run_log [of c s] o by (simp add: log_text_def collab_output_observed)
qed

text \<open>The calls with \<^verbatim>\<open>path\<close> in a namespace that binds it.\<close>

lemma call_onearg:
  assumes "globals w fname = Some (PyFunc f)" "globals w x = Some p"
    "c f [p] (cstate w) = (r, s')"
  shows "call_stmt c fname [x] w =
           (case res r of Returned v \<Rightarrow> Normal (record_call f [p] r s' w)
                        | Raised e \<Rightarrow> Raise e (record_call f [p] r s' w))"
  using assms by (simp add: call_stmt_def lookup_def invoke_def)

lemma path_calls_bound:
  assumes "entry_names w" "globals w ''path'' = Some p"
    "c Login [p] (cstate w) = (r4, s4)" "c LoginNoexit [p] s4 = (r5, s5)"
    "c LoginSilent [p] s5 = (r6, s6)"
  shows "path_calls c w =
     (case res r4 of
        Raised e \<Rightarrow> Raise e (record_call Login [p] r4 s4 w)
      | Returned v4 \<Rightarrow>
         (case res r5 of
            Raised e \<Rightarrow> Raise e (record_call LoginNoexit [p] r5 s5 (record_call Login [p] r4 s4 w))
          | Returned v5 \<Rightarrow>
             (case res r6 of
                Raised e \<Rightarrow> Raise e (record_call LoginSilent [p] r6 s6
                    (record_call LoginNoexit [p] r5 s5 (record_call Login [p] r4 s4 w)))
              | Returned v6 \<Rightarrow> Normal (record_call LoginSilent [p] r6 s6
                    (record_call LoginNoexit [p] r5 s5 (record_call Login [p] r4 s4 w))))))"
proof -
  define w4 where "w4 = record_call Login [p] r4 s4 w"
  define w5 where "w5 = record_call LoginNoexit [p] r5 s5 w4"
  have g: "globals w ''login'' = Some (PyFunc Login)"
    using assms(1) by (simp add: entry_names_def)
  have b4: "call_stmt c ''login'' [''path''] w =
      (case res r4 of Returned v \<Rightarrow> Normal w4 | Raised e \<Rightarrow> Raise e w4)"
    unfolding w4_def using g assms(2,3) by (rule call_onearg)
  have g4: "globals w4 ''login_noexit'' = Some (PyFunc LoginNoexit)"
    "globals w4 ''path'' = Some p"
    using assms(1,2) by (simp_all add: w4_def entry_names_def record_call_simps)
  have c4: "c LoginNoexit [p] (cstate w4) = (r5, s5)"
    using assms(4) by (simp add: w4_def record_call_simps)
  have b5: "call_stmt c ''login_noexit'' [''path''] w4 =
      (case res r5 of Returned v \<Rightarrow> Normal w5 | Raised e \<Rightarrow> Raise e w5)"
    unfolding w5_def using g4 c4 by (rule call_onearg)
  have g5: "globals w5 ''login_silent'' = Some (PyFunc LoginSilent)"
    "globals w5 ''path'' = Some p"
    using assms(1,2) by (simp_all add: w5_def w4_def entry_names_def record_call_simps)
  have c5: "c LoginSilent [p] (cstate w5) = (r6, s6)"
    using assms(5) by (simp add: w5_def record_call_simps)
  have b6: "call_stmt c ''login_silent'' [''path''] w5 =
      (case res r6 of Returned v \<Rightarrow> Normal (record_call LoginSilent [p] r6 s6 w5)
                    | Raised e \<Rightarrow> Raise e (record_call LoginSilent [p] r6 s6 w5))"
    using g5 c5 by (rule call_onearg)
  show ?thesis
    unfolding w4_def [symmetric] w5_def [symmetric]
    by (simp add: path_calls_def seq_def b4 b5 b6 split: call_result.splits)
qed

lemma script_bound:
  "script c (bind_path p (initial s)) =
     seq (guarded_calls c) (path_calls c) (bind_path p (imported s))"
  by (simp add: script_def seq_def import_novacore_def import_sys_def initial_def imported_def
      bind_path_def main_globals_def fun_upd_twist)

section \<open>Runs of the concrete collaborators\<close>

lemma run_c_all_ok:
  "run c_all_ok () = Raise (NameError ''path'')
     (record_call LoginNoexit [] (quiet (Returned PyNone)) ()
        (record_call LoginSilent [] (quiet (Returned PyNone)) ()
           (record_call Login [] (quiet (Returned PyNone)) () (imported ()))))"
  by (rule run_all_returned(2) [where c=c_all_ok and ?v1.0=PyNone and ?v2.0=PyNone and ?v3.0=PyNone])
     (simp_all add: c_all_ok_def quiet_def)

lemma run_c_recording:
  "run c_recording [] = Raise (NameError ''path'')
     (record_call LoginNoexit [] (quiet (Returned PyNone)) [[], [], []]
        (record_call LoginSilent [] (quiet (Returned PyNone)) [[], []]
           (record_call Login [] (quiet (Returned PyNone)) [[]] (imported []))))"
  by (rule run_all_returned(2) [where c=c_recording and ?v1.0=PyNone and ?v2.0=PyNone and ?v3.0=PyNone])
     (simp_all add: c_recording_def quiet_def)

lemma run_c_noexit_mismatch:
  "guarded_calls c_noexit_mismatch (imported ()) = Normal
     (record_call LoginNoexit []
          \<lparr>out = ''license mismatch'' @ [CHR 0x0A], res = Returned (PyBool False)\<rparr> ()
        (record_call LoginSilent [] (quiet (Returned PyNone)) ()
           (record_call Login [] (quiet (Returned PyNone)) () (imported ()))))"
  "run c_noexit_mismatch () = Raise (NameError ''path'')
     (record_call LoginNoexit []
          \<lparr>out = ''license mismatch'' @ [CHR 0x0A], res = Returned (PyBool False)\<rparr> ()
        (record_call LoginSilent [] (quiet (Returned PyNone)) ()
           (record_call Login [] (quiet (Returned PyNone)) () (imported ()))))"
  by (rule run_all_returned [where c=c_noexit_mismatch and ?v1.0=PyNone and ?v2.0=PyNone
        and ?v3.0="PyBool False"]; simp add: c_noexit_mismatch_def quiet_def)+

lemma run_c_login_fails:
  "run c_login_fails () =
     Raise (surfaced (Exc ''ValueError'' ''malformed license'' None))
       (left_world (Exc ''ValueError'' ''malformed license'' None)
          (record_call Login [] (quiet (Raised (Exc ''ValueError'' ''malformed license'' None))) ()
             (imported ())))"
  by (rule run_login_raised [where c=c_login_fails]) (simp_all add: c_login_fails_def quiet_def)

lemma run_c_login_base:
  "run c_login_base () =
     Raise (surfaced (BaseExc ''GeneratorExit'' []))
       (left_world (BaseExc ''GeneratorExit'' [])
          (record_call Login [] (quiet (Raised (BaseExc ''GeneratorExit'' []))) () (imported ())))"
  by (rule run_login_raised [where c=c_login_base]) (simp_all add: c_login_base_def quiet_def)

lemma run_c_login_exits_zero:
  "run c_login_exits_zero () =
     Raise (surfaced (SystemExit (ExitInt 0)))
       (left_world (SystemExit (ExitInt 0))
          (record_call Login [] (quiet (Raised (SystemExit (ExitInt 0)))) () (imported ())))"
  by (rule run_login_raised [where c=c_login_exits_zero])
     (simp_all add: c_login_exits_zero_def quiet_def)

lemma run_c_silent_config_missing:
  "run c_silent_config_missing () =
     Raise (surfaced (Exc ''ConfigNotFound'' ''config/config.json not found'' None))
       (left_world (Exc ''ConfigNotFound'' ''config/config.json not found'' None)
          (record_call LoginSilent []
             (quiet (Raised (Exc ''ConfigNotFound'' ''config/config.json not found'' None))) ()
             (record_call Login [] (quiet (Returned PyNone)) () (imported ()))))"
  by (rule run_silent_raised [where c=c_silent_config_missing and ?v1.0=PyNone])
     (simp_all add: c_silent_config_missing_def quiet_def)

lemma run_c_silent_exits:
  "run c_silent_exits () =
     Raise (surfaced (SystemExit (ExitInt 3)))
       (left_world (SystemExit (ExitInt 3))
          (record_call LoginSilent []
             \<lparr>out = ''license mismatch'' @ [CHR 0x0A], res = Raised (SystemExit (ExitInt 3))\<rparr> ()
             (record_call Login [] (quiet (Returned PyNone)) () (imported ()))))"
  by (rule run_silent_raised [where c=c_silent_exits and ?v1.0=PyNone])
     (simp_all add: c_silent_exits_def quiet_def)

lemma run_c_login_radd:
  "run c_login_radd () =
     Raise (surfaced license_error)
       (left_world license_error
          (record_call Login [] (quiet (Raised license_error)) () (imported ())))"
  by (rule run_login_raised [where c=c_login_radd]) (simp_all add: c_login_radd_def quiet_def)

lemma run_c_silent_exits_counting:
  "run c_silent_exits_counting 0 =
     Raise (surfaced (SystemExit (ExitInt 3)))
       (left_world (SystemExit (ExitInt 3))
          (record_call LoginSilent []
             \<lparr>out = ''license mismatch'' @ [CHR 0x0A], res = Raised (SystemExit (ExitInt 3))\<rparr>
             (Suc (Suc 0))
             (record_call Login [] (quiet (Returned (PyBool True))) (Suc 0) (imported 0))))"
  by (rule run_silent_raised [where c=c_silent_exits_counting and ?v1.0="PyBool True"])
     (simp_all add: c_silent_exits_counting_def quiet_def)

lemma surfaced_plain:
  assumes "is_Exception x" and "no_radd x"
  shows "surfaced x = TypeError_concat (PyExcV x)" and "script_text x = []"
  using assms handler_no_radd [of x] by (simp_all add: surfaced_def script_text_def)

lemma surfaced_base:
  assumes "\<not> is_Exception x"
  shows "surfaced x = x" and "script_text x = []"
  using assms by (simp_all add: surfaced_def script_text_def)

lemma license_error_diagnostic:
  "diagnostic (PyExcV license_error) =
     Inr (''Something went wrong, Here's a preview for developers:'' @ [CHR 0x0A] @
          ''license expired'')"
  by (simp add: diagnostic_def license_error_def)

lemma c_long_status_examples:
  "c_long_status 3 = 3" "c_long_status 256 = 0" "c_long_status (- 1) = 255"
  "c_long_status (2 ^ 64) = 255"
  by (simp_all add: c_long_status_def)

lemma quiet_simps: "res (quiet r) = r" "out (quiet r) = []"
  by (simp_all add: quiet_def)

lemma imports_normal: "seq import_novacore import_sys (initial s) = Normal (imported s)"
  by (simp add: seq_def import_novacore_def import_sys_def initial_def imported_def)

section \<open>The claims of the specification\<close>

text \<open>
  C1. The specification has each handler print the line
  \<^verbatim>\<open>Something went wrong, Here's a preview for developers:\<close>, a newline and the
  error's text, and then exit with status 1. The scenario of the specification,
  \<^verbatim>\<open>login_silent()\<close> raising \<^verbatim>\<open>ConfigNotFound\<close>, evaluates otherwise: the handler's
  concatenation of a \<^verbatim>\<open>str\<close> with the exception object raises \<^verbatim>\<open>TypeError\<close>, nothing
  is written to standard output, and the module body ends by that uncaught
  \<^verbatim>\<open>TypeError\<close>; the status 1 is the interpreter's status for an uncaught exception,
  not that of \<^verbatim>\<open>sys.exit(1)\<close>.
\<close>

theorem silent_config_missing_run:
  "raised_of (run c_silent_config_missing ()) =
     Some (TypeError_concat
       (PyExcV (Exc ''ConfigNotFound'' ''config/config.json not found'' None))) \<and>
   stdout (world_of (run c_silent_config_missing ())) = [] \<and>
   exit_status (run c_silent_config_missing ()) = ExitCode 1"
  by (simp add: run_c_silent_config_missing surfaced_plain world_simps quiet_def
      TypeError_concat_def)

text \<open>
  C2. The specification has a run in which every collaborator call returns normally
  exit with status 0. With such a collaborator the script reaches line 30, where
  \<^verbatim>\<open>path\<close> is unbound: the module body ends by an uncaught \<^verbatim>\<open>NameError\<close>, the status
  is 1, and nothing is written to standard output.
\<close>

theorem all_ok_run:
  "raised_of (run c_all_ok ()) = Some (NameError ''path'') \<and>
   stdout (world_of (run c_all_ok ())) = [] \<and>
   exit_status (run c_all_ok ()) = ExitCode 1"
  by (simp add: run_c_all_ok world_simps quiet_def NameError_def)

text \<open>
  C3. The specification has the process continue running when \<^verbatim>\<open>login_noexit()\<close>
  finds a mismatch and returns without raising. With such a collaborator the three
  guarded blocks do complete normally (the third boundary does not end the process),
  and standard output holds the collaborator's log line only; but the next statement,
  line 30, raises \<^verbatim>\<open>NameError\<close> and the process ends with status 1.
\<close>

theorem noexit_mismatch_run:
  "raised_of (seq import_novacore (seq import_sys (guarded_calls c_noexit_mismatch)) (initial ()))
     = None \<and>
   raised_of (run c_noexit_mismatch ()) = Some (NameError ''path'') \<and>
   stdout (world_of (run c_noexit_mismatch ())) = ''license mismatch'' @ [CHR 0x0A] \<and>
   exit_status (run c_noexit_mismatch ()) = ExitCode 1"
  by (simp add: prefix_imported run_c_noexit_mismatch world_simps quiet_def NameError_def)

text \<open>
  C4. The specification has every error caught by the boundary and never propagated
  out of the script, which ends locally with a printed message and status 1. With
  \<^verbatim>\<open>login()\<close> raising a \<^verbatim>\<open>ValueError\<close>, the error is caught, but the handler itself
  raises a \<^verbatim>\<open>TypeError\<close>, an instance of \<^verbatim>\<open>Exception\<close>, which leaves the script
  uncaught; no message is printed.
\<close>

theorem login_fails_run:
  "raised_of (run c_login_fails ()) =
     Some (TypeError_concat (PyExcV (Exc ''ValueError'' ''malformed license'' None))) \<and>
   is_Exception (TypeError_concat (PyExcV (Exc ''ValueError'' ''malformed license'' None))) \<and>
   stdout (world_of (run c_login_fails ())) = [] \<and>
   exit_status (run c_login_fails ()) = ExitCode 1"
  by (simp add: run_c_login_fails surfaced_plain world_simps quiet_def TypeError_concat_def)

text \<open>In a run of the script as it stands no call passes an argument.\<close>

lemma no_argument_passed:
  assumes "(f, a, r) \<in> set (calls (world_of (run c s)))"
  shows "a = []"
proof -
  obtain r1 s1 where c1: "c Login [] s = (r1, s1)" by (cases "c Login [] s")
  obtain r2 s2 where c2: "c LoginSilent [] s1 = (r2, s2)" by (cases "c LoginSilent [] s1")
  obtain r3 s3 where c3: "c LoginNoexit [] s2 = (r3, s3)" by (cases "c LoginNoexit [] s2")
  show ?thesis
    using assms unfolding run_calls [where c=c, OF c1 c2 c3]
    by (auto split: if_splits)
qed

text \<open>
  C5. Whatever value \<open>p\<close> the name \<^verbatim>\<open>path\<close> is bound to, the calls of lines 30 to 32
  hand exactly \<open>p\<close> to the collaborator: once the three guarded calls have returned, the
  script calls \<^verbatim>\<open>login\<close>, \<^verbatim>\<open>login_noexit\<close> and \<^verbatim>\<open>login_silent\<close>, in this order, each with
  the argument list \<open>[p]\<close> (not the empty list, for which the collaborator takes its
  default location), up to the first of them that raises. The script itself does not
  bind \<^verbatim>\<open>path\<close> (C9), so this is about a namespace that does.
\<close>

theorem path_forwarded:
  assumes "c Login [] s = (r1, s1)" and "res r1 = Returned v1"
    and "c LoginSilent [] s1 = (r2, s2)" and "res r2 = Returned v2"
    and "c LoginNoexit [] s2 = (r3, s3)" and "res r3 = Returned v3"
    and "c Login [p] s3 = (r4, s4)" and "c LoginNoexit [p] s4 = (r5, s5)"
    and "c LoginSilent [p] s5 = (r6, s6)"
  shows "calls (world_of (script c (bind_path p (initial s)))) =
     [(Login, [], r1), (LoginSilent, [], r2), (LoginNoexit, [], r3)] @
     (if raised r4 then [(Login, [p], r4)]
      else if raised r5 then [(Login, [p], r4), (LoginNoexit, [p], r5)]
      else [(Login, [p], r4), (LoginNoexit, [p], r5), (LoginSilent, [p], r6)])"
proof -
  define w0 where "w0 = bind_path p (imported s)"
  define w3 where "w3 = record_call LoginNoexit [] r3 s3
      (record_call LoginSilent [] r2 s2 (record_call Login [] r1 s1 w0))"
  have n0: "entry_names w0" by (simp add: w0_def entry_names_bind_path imported_simps)
  have c0: "c Login [] (cstate w0) = (r1, s1)"
    using assms(1) by (simp add: w0_def bind_path_simps imported_simps)
  have g: "guarded_calls c w0 = Normal w3"
    using guarded_noexit [where c=c, OF n0 c0 assms(2) assms(3) assms(4) assms(5)] assms(6)
    by (simp add: w3_def)
  have n3: "entry_names w3" using n0 by (simp add: w3_def entry_names_record_call)
  have p3: "globals w3 ''path'' = Some p"
    by (simp add: w3_def w0_def record_call_simps bind_path_simps)
  have c3: "c Login [p] (cstate w3) = (r4, s4)"
    using assms(7) by (simp add: w3_def record_call_simps)
  have l3: "calls w3 = [(Login, [], r1), (LoginSilent, [], r2), (LoginNoexit, [], r3)]"
    by (simp add: w3_def w0_def record_call_simps bind_path_simps imported_simps)
  have "script c (bind_path p (initial s)) = path_calls c w3"
    by (simp add: script_bound seq_def g w0_def [symmetric])
  then show ?thesis
    using l3
    by (simp add: path_calls_bound [where c=c, OF n3 p3 c3 assms(8) assms(9)] record_call_simps
        raised_def split: call_result.splits)
qed

theorem path_forwarded_witness:
  "c_recording Login [] [] = (quiet (Returned PyNone), [[]]) \<and>
   c_recording LoginSilent [] [[]] = (quiet (Returned PyNone), [[], []]) \<and>
   c_recording LoginNoexit [] [[], []] = (quiet (Returned PyNone), [[], [], []]) \<and>
   c_recording Login [PyStr ''licenses/site.json''] [[], [], []] =
     (quiet (Returned PyNone), [[], [], [], [PyStr ''licenses/site.json'']]) \<and>
   calls (world_of (script c_recording (bind_path (PyStr ''licenses/site.json'') (initial [])))) =
     [(Login, [], quiet (Returned PyNone)), (LoginSilent, [], quiet (Returned PyNone)),
      (LoginNoexit, [], quiet (Returned PyNone)),
      (Login, [PyStr ''licenses/site.json''], quiet (Returned PyNone)),
      (LoginNoexit, [PyStr ''licenses/site.json''], quiet (Returned PyNone)),
      (LoginSilent, [PyStr ''licenses/site.json''], quiet (Returned PyNone))]"
proof -
  let ?p = "PyStr ''licenses/site.json''"
  have h1: "c_recording Login [] [] = (quiet (Returned PyNone), [[]])"
    and h2: "c_recording LoginSilent [] [[]] = (quiet (Returned PyNone), [[], []])"
    and h3: "c_recording LoginNoexit [] [[], []] = (quiet (Returned PyNone), [[], [], []])"
    and h4: "c_recording Login [?p] [[], [], []] = (quiet (Returned PyNone), [[], [], [], [?p]])"
    and h5: "c_recording LoginNoexit [?p] [[], [], [], [?p]] =
               (quiet (Returned PyNone), [[], [], [], [?p], [?p]])"
    and h6: "c_recording LoginSilent [?p] [[], [], [], [?p], [?p]] =
               (quiet (Returned PyNone), [[], [], [], [?p], [?p], [?p]])"
    by (simp_all add: c_recording_def)
  have r: "res (quiet (Returned PyNone)) = Returned PyNone" by (simp add: quiet_def)
  show ?thesis
    using path_forwarded [where c=c_recording, OF h1 r h2 r h3 r h4 h5 h6] h1 h2 h3 h4
    by (simp add: raised_def quiet_def)
qed

lemma boundary_eq:
  "Raise (surfaced x) (left_world x w) = (if is_Exception x then handler x w else Raise x w)"
  by (simp add: surfaced_def left_world_def handler_raises)

text \<open>
  C6. Every run, written out by the replies \<open>r1\<close>, \<open>r2\<close>, \<open>r3\<close> the collaborator gives
  (or would give) to \<^verbatim>\<open>login()\<close>, \<^verbatim>\<open>login_silent()\<close> and \<^verbatim>\<open>login_noexit()\<close>, called in
  this order with the collaborator's state threaded through. Each call has its own
  boundary: when a call raises an instance of \<^verbatim>\<open>Exception\<close> the run is what the handler
  does in the world right after that call, and when it raises anything else the
  exception passes; either way the later entry points are never called. Only when
  all three have returned does control reach the calls with \<^verbatim>\<open>path\<close>. The log of calls
  says the same, and every run ends by an exception.
\<close>

theorem entry_points_in_order:
  assumes "c Login [] s = (r1, s1)" and "c LoginSilent [] s1 = (r2, s2)"
    and "c LoginNoexit [] s2 = (r3, s3)"
    and "w0 = world_of (seq import_novacore import_sys (initial s))"
    and "w1 = record_call Login [] r1 s1 w0"
    and "w2 = record_call LoginSilent [] r2 s2 w1"
    and "w3 = record_call LoginNoexit [] r3 s3 w2"
  shows "run c s =
     (case res r1 of
        Raised x \<Rightarrow> if is_Exception x then handler x w1 else Raise x w1
      | Returned v1 \<Rightarrow>
         (case res r2 of
            Raised x \<Rightarrow> if is_Exception x then handler x w2 else Raise x w2
          | Returned v2 \<Rightarrow>
             (case res r3 of
                Raised x \<Rightarrow> if is_Exception x then handler x w3 else Raise x w3
              | Returned v3 \<Rightarrow> path_calls c w3))) \<and>
     calls (world_of (run c s)) =
       (if raised r1 then [(Login, [], r1)]
        else if raised r2 then [(Login, [], r1), (LoginSilent, [], r2)]
        else [(Login, [], r1), (LoginSilent, [], r2), (LoginNoexit, [], r3)]) \<and>
     raised_of (run c s) \<noteq> None"
proof -
  have w0: "w0 = imported s" using assms(4) by (simp add: imports_normal)
  have e: "run c s =
     (case res r1 of
        Raised x \<Rightarrow> if is_Exception x then handler x w1 else Raise x w1
      | Returned v1 \<Rightarrow>
         (case res r2 of
            Raised x \<Rightarrow> if is_Exception x then handler x w2 else Raise x w2
          | Returned v2 \<Rightarrow>
             (case res r3 of
                Raised x \<Rightarrow> if is_Exception x then handler x w3 else Raise x w3
              | Returned v3 \<Rightarrow> path_calls c w3)))"
  proof (cases "res r1")
    case (Raised x)
    show ?thesis
      unfolding boundary_eq [symmetric]
      by (simp add: run_login_raised [where c=c, OF assms(1) Raised] Raised assms(5) w0)
  next
    case r1: (Returned v1)
    show ?thesis
    proof (cases "res r2")
      case (Raised x)
      show ?thesis
        unfolding boundary_eq [symmetric]
        by (simp add: run_silent_raised [where c=c, OF assms(1) r1 assms(2) Raised] r1 Raised
            assms(5,6) w0)
    next
      case r2: (Returned v2)
      show ?thesis
      proof (cases "res r3")
        case (Raised x)
        show ?thesis
          unfolding boundary_eq [symmetric]
          by (simp add: run_noexit_raised [where c=c, OF assms(1) r1 assms(2) r2 assms(3) Raised]
              r1 r2 Raised assms(5,6,7) w0)
      next
        case r3: (Returned v3)
        have n: "entry_names w3" "globals w3 ''path'' = None"
          by (simp_all add: assms(5,6,7) w0 entry_names_record_call record_call_simps
              imported_simps)
        have pc: "path_calls c w3 = Raise (NameError ''path'') w3"
          using n by (rule path_calls_raise)
        show ?thesis
          using pc
          by (simp add: run_all_returned(2) [where c=c, OF assms(1) r1 assms(2) r2 assms(3) r3]
              r1 r2 r3 assms(5,6,7) w0)
      qed
    qed
  qed
  show ?thesis
    using e run_calls [where c=c, OF assms(1,2,3)] run_log [of c s] by simp
qed

theorem entry_points_in_order_witness:
  "c_silent_config_missing Login [] () = (quiet (Returned PyNone), ()) \<and>
   c_silent_config_missing LoginSilent [] () =
     (quiet (Raised (Exc ''ConfigNotFound'' ''config/config.json not found'' None)), ()) \<and>
   c_silent_config_missing LoginNoexit [] () = (quiet (Returned PyNone), ()) \<and>
   run c_silent_config_missing () =
     handler (Exc ''ConfigNotFound'' ''config/config.json not found'' None)
       (record_call LoginSilent []
          (quiet (Raised (Exc ''ConfigNotFound'' ''config/config.json not found'' None))) ()
          (record_call Login [] (quiet (Returned PyNone)) ()
             (world_of (seq import_novacore import_sys (initial ()))))) \<and>
   calls (world_of (run c_silent_config_missing ())) =
     [(Login, [], quiet (Returned PyNone)),
      (LoginSilent, [],
        quiet (Raised (Exc ''ConfigNotFound'' ''config/config.json not found'' None)))] \<and>
   raised_of (run c_silent_config_missing ()) \<noteq> None"
proof -
  have h1: "c_silent_config_missing Login [] () = (quiet (Returned PyNone), ())"
    and h2: "c_silent_config_missing LoginSilent [] () =
     (quiet (Raised (Exc ''ConfigNotFound'' ''config/config.json not found'' None)), ())"
    and h3: "c_silent_config_missing LoginNoexit [] () = (quiet (Returned PyNone), ())"
    by (simp_all add: c_silent_config_missing_def)
  note t = entry_points_in_order [where c=c_silent_config_missing, OF h1 h2 h3 refl refl refl refl]
  have a: "run c_silent_config_missing () =
     handler (Exc ''ConfigNotFound'' ''config/config.json not found'' None)
       (record_call LoginSilent []
          (quiet (Raised (Exc ''ConfigNotFound'' ''config/config.json not found'' None))) ()
          (record_call Login [] (quiet (Returned PyNone)) ()
             (world_of (seq import_novacore import_sys (initial ())))))"
    using conjunct1 [OF t] by (simp add: quiet_simps)
  have b: "calls (world_of (run c_silent_config_missing ())) =
     [(Login, [], quiet (Returned PyNone)),
      (LoginSilent, [],
        quiet (Raised (Exc ''ConfigNotFound'' ''config/config.json not found'' None)))]"
    using conjunct1 [OF conjunct2 [OF t]] by (simp add: raised_def quiet_simps)
  have c: "raised_of (run c_silent_config_missing ()) \<noteq> None"
    using conjunct2 [OF conjunct2 [OF t]] .
  show ?thesis
    by (intro conjI) (rule h1 h2 h3 a b c)+
qed

text \<open>
  C7. The script is deterministic in the collaborator's behaviour as the claim
  describes it: two runs, against collaborators of any kind and in any state, in which
  the same calls wrote the same text and either returned (whatever value) or raised
  the same exception, write the same standard output, end by the same exception and
  give the same exit status.
\<close>

theorem same_behaviour_same_outcome:
  assumes "observed (calls (world_of (run c1 s1))) = observed (calls (world_of (run c2 s2)))"
  shows "stdout (world_of (run c1 s1)) = stdout (world_of (run c2 s2)) \<and>
         raised_of (run c1 s1) = raised_of (run c2 s2) \<and>
         exit_status (run c1 s1) = exit_status (run c2 s2)"
proof -
  have r: "raised_of (run c1 s1) = raised_of (run c2 s2)"
    using assms run_log [of c1 s1] run_log [of c2 s2] by simp
  have o: "stdout (world_of (run c1 s1)) = stdout (world_of (run c2 s2))"
    using assms run_log [of c1 s1] run_log [of c2 s2] by simp
  from r have "exit_status (run c1 s1) = exit_status (run c2 s2)"
    by (rule exit_status_raised_of)
  with r o show ?thesis by simp
qed

theorem same_behaviour_same_outcome_witness:
  "observed (calls (world_of (run c_silent_exits ()))) =
     observed (calls (world_of (run c_silent_exits_counting 0))) \<and>
   calls (world_of (run c_silent_exits ())) \<noteq> calls (world_of (run c_silent_exits_counting 0)) \<and>
   stdout (world_of (run c_silent_exits ())) = ''license mismatch'' @ [CHR 0x0A] \<and>
   stdout (world_of (run c_silent_exits_counting 0)) = ''license mismatch'' @ [CHR 0x0A] \<and>
   raised_of (run c_silent_exits ()) = raised_of (run c_silent_exits_counting 0) \<and>
   exit_status (run c_silent_exits ()) = exit_status (run c_silent_exits_counting 0)"
proof -
  have h: "observed (calls (world_of (run c_silent_exits ()))) =
     observed (calls (world_of (run c_silent_exits_counting 0)))"
    by (simp add: run_c_silent_exits run_c_silent_exits_counting world_simps observed_def
        observable_def quiet_def)
  have d: "calls (world_of (run c_silent_exits ())) \<noteq>
      calls (world_of (run c_silent_exits_counting 0))"
    by (simp add: run_c_silent_exits run_c_silent_exits_counting world_simps quiet_def)
  have o: "stdout (world_of (run c_silent_exits ())) = ''license mismatch'' @ [CHR 0x0A]"
    by (simp add: run_c_silent_exits world_simps quiet_def surfaced_base)
  show ?thesis
    using same_behaviour_same_outcome [OF h] h d o by simp
qed

text \<open>
  C8, as stated, has the concatenation raise \<^verbatim>\<open>TypeError\<close> for every caught exception
  that is not a \<^verbatim>\<open>str\<close>. An exception whose class defines \<^verbatim>\<open>__radd__\<close> is not a \<^verbatim>\<open>str\<close>
  either, and for it the concatenation succeeds: the handler prints the diagnostic
  and reaches \<^verbatim>\<open>sys.exit(1)\<close>.
\<close>

theorem radd_handler_prints_counterexample:
  "res (fst (c_login_radd Login [] ())) = Raised license_error \<and>
   is_Exception license_error \<and>
   diagnostic (PyExcV license_error) =
     Inr (''Something went wrong, Here's a preview for developers:'' @ [CHR 0x0A] @
          ''license expired'') \<and>
   raised_of (run c_login_radd ()) = Some (SystemExit (ExitInt 1)) \<and>
   stdout (world_of (run c_login_radd ())) =
     ''Something went wrong, Here's a preview for developers:'' @ [CHR 0x0A] @
     ''license expired'' @ [CHR 0x0A]"
proof -
  have e: "is_Exception license_error" by (simp add: license_error_def)
  have x: "handler_exit license_error = SystemExit (ExitInt 1)"
    by (simp add: handler_exit_def license_error_diagnostic)
  have t: "handler_text license_error =
     ''Something went wrong, Here's a preview for developers:'' @ [CHR 0x0A] @
     ''license expired'' @ [CHR 0x0A]"
    by (simp add: handler_text_def license_error_diagnostic)
  show ?thesis
    using e x t
    by (simp add: run_c_login_radd license_error_diagnostic surfaced_def script_text_def
        world_simps quiet_simps c_login_radd_def)
qed

text \<open>
  C8, amended. For every caught exception whose class defines no \<^verbatim>\<open>__radd__\<close> (every
  built-in exception class among them) the concatenation raises \<^verbatim>\<open>TypeError\<close>; the
  handler leaves by that \<^verbatim>\<open>TypeError\<close> from any world, with standard output unchanged,
  so its \<^verbatim>\<open>print\<close> never completes and its \<^verbatim>\<open>sys.exit(1)\<close> is never reached. Whichever
  of the three calls raised such an exception, the run ends by the \<^verbatim>\<open>TypeError\<close> and
  the script has written nothing.
\<close>

theorem handler_concat_raises:
  assumes "(f, a, r) \<in> set (calls (world_of (run c s)))" and "res r = Raised x"
    and "is_Exception x" and "no_radd x"
  shows "diagnostic (PyExcV x) = Inl (TypeError_concat (PyExcV x)) \<and>
         handler x w = Raise (TypeError_concat (PyExcV x)) (unbind_e w) \<and>
         stdout (unbind_e w) = stdout w \<and>
         raised_of (run c s) = Some (TypeError_concat (PyExcV x)) \<and>
         stdout (world_of (run c s)) = collab_output (calls (world_of (run c s)))"
proof -
  have h: "handler x w = Raise (TypeError_concat (PyExcV x)) (unbind_e w)"
    by (simp add: handler_raises handler_no_radd [OF assms(4)])
  show ?thesis
    using raised_reply_ends_run [OF assms(1,2)] surfaced_plain [OF assms(3,4)] h
    by (simp add: diagnostic_no_radd [OF assms(4)] unbind_e_def)
qed

theorem handler_concat_raises_witness:
  "(Login, [], quiet (Raised (Exc ''ValueError'' ''malformed license'' None)))
     \<in> set (calls (world_of (run c_login_fails ()))) \<and>
   res (quiet (Raised (Exc ''ValueError'' ''malformed license'' None))) =
     Raised (Exc ''ValueError'' ''malformed license'' None) \<and>
   is_Exception (Exc ''ValueError'' ''malformed license'' None) \<and>
   no_radd (Exc ''ValueError'' ''malformed license'' None) \<and>
   diagnostic (PyExcV (Exc ''ValueError'' ''malformed license'' None)) =
     Inl (TypeError_concat (PyExcV (Exc ''ValueError'' ''malformed license'' None))) \<and>
   handler (Exc ''ValueError'' ''malformed license'' None) (imported ()) =
     Raise (TypeError_concat (PyExcV (Exc ''ValueError'' ''malformed license'' None)))
       (unbind_e (imported ())) \<and>
   raised_of (run c_login_fails ()) =
     Some (TypeError_concat (PyExcV (Exc ''ValueError'' ''malformed license'' None))) \<and>
   stdout (world_of (run c_login_fails ())) = []"
proof -
  have h1: "(Login, [], quiet (Raised (Exc ''ValueError'' ''malformed license'' None)))
     \<in> set (calls (world_of (run c_login_fails ())))"
    by (simp add: run_c_login_fails world_simps)
  have h2: "res (quiet (Raised (Exc ''ValueError'' ''malformed license'' None))) =
     Raised (Exc ''ValueError'' ''malformed license'' None)"
    by (simp add: quiet_simps)
  have h3: "is_Exception (Exc ''ValueError'' ''malformed license'' None)" by simp
  have h4: "no_radd (Exc ''ValueError'' ''malformed license'' None)" by simp
  have o: "collab_output (calls (world_of (run c_login_fails ()))) = []"
    by (simp add: run_c_login_fails world_simps collab_output_def quiet_simps)
  show ?thesis
    using handler_concat_raises [OF h1 h2 h3 h4, of "imported ()"] h1 h2 o by simp
qed

lemma guarded_normal_path:
  assumes "guarded_calls c (imported s) = Normal w"
  shows "globals w ''path'' = None \<and> run c s = Raise (NameError ''path'') w"
proof -
  obtain r1 s1 where c1: "c Login [] s = (r1, s1)" by (cases "c Login [] s")
  obtain r2 s2 where c2: "c LoginSilent [] s1 = (r2, s2)" by (cases "c LoginSilent [] s1")
  obtain r3 s3 where c3: "c LoginNoexit [] s2 = (r3, s3)" by (cases "c LoginNoexit [] s2")
  have n: "entry_names (imported s)" by (simp add: imported_simps)
  have cs: "c Login [] (cstate (imported s)) = (r1, s1)" using c1 by (simp add: imported_simps)
  show ?thesis
  proof (cases "res r1")
    case (Raised x)
    show ?thesis
      using assms guarded_login_raised [where c=c, OF n cs Raised] by simp
  next
    case r1: (Returned v1)
    show ?thesis
    proof (cases "res r2")
      case (Raised x)
      show ?thesis
        using assms guarded_silent_raised [where c=c, OF n cs r1 c2 Raised] by simp
    next
      case r2: (Returned v2)
      show ?thesis
      proof (cases "res r3")
        case (Raised x)
        show ?thesis
          using assms guarded_noexit [where c=c, OF n cs r1 c2 r2 c3] Raised by simp
      next
        case r3: (Returned v3)
        have "entry_names w \<and> globals w ''path'' = None"
          using assms run_all_returned(1) [where c=c, OF c1 r1 c2 r2 c3 r3]
          by (auto simp add: entry_names_record_call record_call_simps imported_simps)
        then show ?thesis
          using assms by (simp add: run_imported seq_def path_calls_raise)
      qed
    qed
  qed
qed

lemma run_prefix_raised:
  assumes "seq import_novacore (seq import_sys (guarded_calls c)) (initial s) = Raise x w"
  shows "run c s = Raise x w"
proof -
  have "guarded_calls c (imported s) = Raise x w"
    using assms by (simp only: prefix_imported)
  then show ?thesis by (simp add: run_imported seq_def)
qed

lemma exit_zero_is_system_exit:
  assumes "exit_status (Raise x w) = ExitCode 0"
  shows "\<exists>z. x = SystemExit z \<and> system_exit_status z = 0"
  using assms by (cases x) simp_all

text \<open>
  C9, as stated, has no run end with exit status 0. A collaborator whose
  \<^verbatim>\<open>login()\<close> leaves through \<^verbatim>\<open>sys.exit(0)\<close> passes the boundary, which catches
  \<^verbatim>\<open>Exception\<close> only, and the process ends with status 0.
\<close>

theorem exit_zero_counterexample:
  "res (fst (c_login_exits_zero Login [] ())) = Raised (SystemExit (ExitInt 0)) \<and>
   raised_of (run c_login_exits_zero ()) = Some (SystemExit (ExitInt 0)) \<and>
   exit_status (run c_login_exits_zero ()) = ExitCode 0"
  by (simp add: run_c_login_exits_zero surfaced_base c_login_exits_zero_def quiet_simps
      c_long_status_def)

text \<open>
  C9, amended. The name \<^verbatim>\<open>path\<close> is never bound: whenever the three guarded blocks
  complete and control reaches line 30, the namespace has no \<^verbatim>\<open>path\<close> and the run ends
  there by an uncaught \<^verbatim>\<open>NameError\<close>, with status 1, whatever the collaborator did. No run
  reaches the end of the module: every run ends by an exception. The exit status is 0
  only when one of the three guarded blocks is left by a \<^verbatim>\<open>SystemExit\<close> whose status
  is 0, before line 30 is reached.
\<close>

theorem path_never_bound:
  "(seq import_novacore (seq import_sys (guarded_calls c)) (initial s) = Normal w \<longrightarrow>
      globals w ''path'' = None \<and> run c s = Raise (NameError ''path'') w \<and>
      exit_status (run c s) = ExitCode 1) \<and>
   raised_of (run c s) \<noteq> None \<and>
   (exit_status (run c s) = ExitCode 0 \<longrightarrow>
      (\<exists>z w'. seq import_novacore (seq import_sys (guarded_calls c)) (initial s) =
                 Raise (SystemExit z) w' \<and>
              run c s = Raise (SystemExit z) w' \<and> system_exit_status z = 0))"
proof -
  let ?prefix = "seq import_novacore (seq import_sys (guarded_calls c)) (initial s)"
  have a: "?prefix = Normal w \<longrightarrow>
      globals w ''path'' = None \<and> run c s = Raise (NameError ''path'') w \<and>
      exit_status (run c s) = ExitCode 1"
    using guarded_normal_path [of c s w] by (auto simp add: prefix_imported NameError_def)
  have b: "raised_of (run c s) \<noteq> None"
    using run_log [of c s] by simp
  have c: "exit_status (run c s) = ExitCode 0 \<longrightarrow>
      (\<exists>z w'. ?prefix = Raise (SystemExit z) w' \<and>
              run c s = Raise (SystemExit z) w' \<and> system_exit_status z = 0)"
  proof
    assume z: "exit_status (run c s) = ExitCode 0"
    show "\<exists>z w'. ?prefix = Raise (SystemExit z) w' \<and>
              run c s = Raise (SystemExit z) w' \<and> system_exit_status z = 0"
    proof (cases ?prefix)
      case (Normal w1)
      then have "exit_status (run c s) = ExitCode 1"
        using guarded_normal_path [of c s w1] by (auto simp add: prefix_imported NameError_def)
      with z show ?thesis by simp
    next
      case (Raise x w1)
      then have r: "run c s = Raise x w1" by (rule run_prefix_raised)
      with z obtain e where "x = SystemExit e" "system_exit_status e = 0"
        using exit_zero_is_system_exit [of x w1] by auto
      with r Raise show ?thesis by simp
    qed
  qed
  from a b c show ?thesis by (intro conjI)
qed

theorem path_never_bound_witness:
  "seq import_novacore (seq import_sys (guarded_calls c_noexit_mismatch)) (initial ()) =
     Normal (world_of (run c_noexit_mismatch ())) \<and>
   globals (world_of (run c_noexit_mismatch ())) ''path'' = None \<and>
   run c_noexit_mismatch () = Raise (NameError ''path'') (world_of (run c_noexit_mismatch ())) \<and>
   exit_status (run c_noexit_mismatch ()) = ExitCode 1 \<and>
   raised_of (run c_noexit_mismatch ()) \<noteq> None \<and>
   exit_status (run c_login_exits_zero ()) = ExitCode 0 \<and>
   (\<exists>z w'. seq import_novacore (seq import_sys (guarded_calls c_login_exits_zero)) (initial ()) =
              Raise (SystemExit z) w' \<and>
           run c_login_exits_zero () = Raise (SystemExit z) w' \<and> system_exit_status z = 0)"
proof -
  have h1: "seq import_novacore (seq import_sys (guarded_calls c_noexit_mismatch)) (initial ()) =
     Normal (world_of (run c_noexit_mismatch ()))"
    by (simp add: prefix_imported run_c_noexit_mismatch)
  have h2: "exit_status (run c_login_exits_zero ()) = ExitCode 0"
    by (simp add: run_c_login_exits_zero surfaced_base c_long_status_def)
  note t1 = path_never_bound [of c_noexit_mismatch "()" "world_of (run c_noexit_mismatch ())"]
  note t2 = path_never_bound [of c_login_exits_zero "()" "world_of (run c_login_exits_zero ())"]
  have a: "globals (world_of (run c_noexit_mismatch ())) ''path'' = None \<and>
      run c_noexit_mismatch () = Raise (NameError ''path'') (world_of (run c_noexit_mismatch ())) \<and>
      exit_status (run c_noexit_mismatch ()) = ExitCode 1"
    using conjunct1 [OF t1] h1 by (rule mp)
  have b: "raised_of (run c_noexit_mismatch ()) \<noteq> None"
    using conjunct1 [OF conjunct2 [OF t1]] .
  have c: "\<exists>z w'. seq import_novacore (seq import_sys (guarded_calls c_login_exits_zero)) (initial ()) =
              Raise (SystemExit z) w' \<and>
           run c_login_exits_zero () = Raise (SystemExit z) w' \<and> system_exit_status z = 0"
    using conjunct2 [OF conjunct2 [OF t2]] h2 by (rule mp)
  from h1 a b h2 c show ?thesis by (intro conjI) (erule conjunct1 conjunct2 | assumption | blast)+
qed

text \<open>
  C10, as stated, has the process end "with the status carried by that exception
  rather than with exit code 1" for every \<^verbatim>\<open>BaseException\<close> outside \<^verbatim>\<open>Exception\<close>.
  \<^verbatim>\<open>GeneratorExit\<close> raised by \<^verbatim>\<open>login()\<close> is such an exception: it passes the boundary,
  it carries no status, and the process ends with exit code 1.
\<close>

theorem base_exception_exit_code_counterexample:
  "res (fst (c_login_base Login [] ())) = Raised (BaseExc ''GeneratorExit'' []) \<and>
   \<not> is_Exception (BaseExc ''GeneratorExit'' []) \<and>
   raised_of (run c_login_base ()) = Some (BaseExc ''GeneratorExit'' []) \<and>
   carried_status (BaseExc ''GeneratorExit'' []) = None \<and>
   exit_status (run c_login_base ()) = ExitCode 1"
  by (simp add: run_c_login_base surfaced_base c_login_base_def quiet_simps)

text \<open>
  C10, amended. When a collaborator call raises a \<^verbatim>\<open>BaseException\<close> that is not an
  instance of \<^verbatim>\<open>Exception\<close>, the boundary does not catch it: the run ends by that very
  exception, the script writes nothing (standard output holds what the collaborator
  wrote), and that call is the last one made. The process status is the interpreter's
  for that exception: for a \<^verbatim>\<open>SystemExit\<close> the status of its argument as the process
  reports it (0 for \<^verbatim>\<open>None\<close>; an integer reduced modulo 256, or 255 when it does not
  fit a C \<^verbatim>\<open>long\<close>; 1 for any other object; so it may itself be 1), the interrupt path
  for \<^verbatim>\<open>KeyboardInterrupt\<close>, and 1 for any other.
\<close>

theorem base_exception_passes_boundary:
  assumes "(f, a, r) \<in> set (calls (world_of (run c s)))" and "res r = Raised x"
    and "\<not> is_Exception x"
  shows "raised_of (run c s) = Some x \<and>
         stdout (world_of (run c s)) = collab_output (calls (world_of (run c s))) \<and>
         last (calls (world_of (run c s))) = (f, a, r) \<and>
         exit_status (run c s) =
           (case carried_status x of
              Some n \<Rightarrow> ExitCode n
            | None \<Rightarrow> if x = KeyboardInterrupt then Interrupted else ExitCode 1)"
proof -
  have r: "raised_of (run c s) = Some x"
    using raised_reply_ends_run(1) [OF assms(1,2)] surfaced_base [OF assms(3)] by simp
  then obtain w where w: "run c s = Raise x w"
    by (cases "run c s") simp_all
  have e: "exit_status (Raise x w) =
           (case carried_status x of
              Some n \<Rightarrow> ExitCode n
            | None \<Rightarrow> if x = KeyboardInterrupt then Interrupted else ExitCode 1)"
    using assms(3) by (cases x) simp_all
  show ?thesis
    using r e w raised_reply_ends_run(2) [OF assms(1,2)] surfaced_base [OF assms(3)]
      raised_is_last [OF assms(1,2)]
    by simp
qed

theorem base_exception_passes_boundary_witness:
  "(LoginSilent, [],
      \<lparr>out = ''license mismatch'' @ [CHR 0x0A], res = Raised (SystemExit (ExitInt 3))\<rparr>)
     \<in> set (calls (world_of (run c_silent_exits ()))) \<and>
   \<not> is_Exception (SystemExit (ExitInt 3)) \<and>
   raised_of (run c_silent_exits ()) = Some (SystemExit (ExitInt 3)) \<and>
   stdout (world_of (run c_silent_exits ())) = ''license mismatch'' @ [CHR 0x0A] \<and>
   exit_status (run c_silent_exits ()) = ExitCode 3"
proof -
  have h1: "(LoginSilent, [],
      \<lparr>out = ''license mismatch'' @ [CHR 0x0A], res = Raised (SystemExit (ExitInt 3))\<rparr>)
     \<in> set (calls (world_of (run c_silent_exits ())))"
    by (simp add: run_c_silent_exits world_simps)
  have h2: "res \<lparr>out = ''license mismatch'' @ [CHR 0x0A], res = Raised (SystemExit (ExitInt 3))\<rparr>
      = Raised (SystemExit (ExitInt 3))" by simp
  have h3: "\<not> is_Exception (SystemExit (ExitInt 3))" by simp
  have o: "collab_output (calls (world_of (run c_silent_exits ()))) =
      ''license mismatch'' @ [CHR 0x0A]"
    by (simp add: run_c_silent_exits world_simps collab_output_def quiet_simps)
  show ?thesis
    using base_exception_passes_boundary [OF h1 h2 h3] h1 o
    by (simp add: c_long_status_def)
qed

end
